theory Spec2Isabelle
  imports Main "HOL-Library.AList" "HOL-Library.Word"
begin

section \<open>The provisioning component of the ThingsBoard client SDK (src/Provision.h)\<close>

text \<open>
  The class \<open>Provision\<close> sends one provisioning request over an MQTT-like transport and
  hands the single response to a stored handler.  Its members are three injected transport
  callbacks and one \<open>Provision_Callback\<close> (the correlation slot).  Every method is embedded
  as a function that takes the object (\<open>this\<close>) and the environment and returns them
  updated, next to the method's result.

  The environment is everything outside the object: an opaque world \<open>'w\<close> that the injected
  functions read and change, and the list of calls that left the object, in order.  The
  injected functions work on the world only: they do not call back into the object (the
  component is not reentrant), so the object changes only where a method assigns a member.
\<close>

subsection \<open>Topics and JSON keys (lines 9 to 21)\<close>

definition PROV_RESPONSE_TOPIC :: string where
  "PROV_RESPONSE_TOPIC = ''/provision/response''"

definition PROV_REQUEST_TOPIC :: string where
  "PROV_REQUEST_TOPIC = ''/provision/request''"

definition DEVICE_NAME_KEY :: string where
  "DEVICE_NAME_KEY = ''deviceName''"

definition PROV_DEVICE_KEY :: string where
  "PROV_DEVICE_KEY = ''provisionDeviceKey''"

definition PROV_DEVICE_SECRET_KEY :: string where
  "PROV_DEVICE_SECRET_KEY = ''provisionDeviceSecret''"

definition PROV_CRED_TYPE_KEY :: string where
  "PROV_CRED_TYPE_KEY = ''credentialsType''"

definition PROV_TOKEN :: string where
  "PROV_TOKEN = ''token''"

definition PROV_CRED_USERNAME :: string where
  "PROV_CRED_USERNAME = ''username''"

definition PROV_CRED_PASSWORD :: string where
  "PROV_CRED_PASSWORD = ''password''"

definition PROV_CRED_CLIENT_ID :: string where
  "PROV_CRED_CLIENT_ID = ''clientId''"

definition PROV_CRED_HASH :: string where
  "PROV_CRED_HASH = ''hash''"

subsection \<open>JSON documents\<close>

text \<open>
  The JSON values a document holds.  An object keeps its members in insertion order.
  (Floating-point numbers are left out: the component never builds or inspects one.)
\<close>

datatype JsonVariant =
    JsonNull
  | JsonBool bool
  | JsonInt int
  | JsonString string
  | JsonArray "JsonVariant list"
  | JsonObject "(string \<times> JsonVariant) list"

text \<open>
  Modelled from the spec: the document type \<open>StaticJsonDocument<N>\<close> and the macro
  \<open>JSON_OBJECT_SIZE\<close> come from the JSON library, which is not part of src/.  A document has
  a fixed capacity, counted here in object members: \<open>JSON_OBJECT_SIZE(n)\<close> is the room that
  an object of \<open>n\<close> key-value pairs takes (strings passed as \<open>char const *\<close> are stored by
  pointer and take no room of their own).  A fresh document is null.
\<close>

record JsonDocument =
  capacity :: nat
  root :: JsonVariant

definition JSON_OBJECT_SIZE :: "nat \<Rightarrow> nat" where
  "JSON_OBJECT_SIZE n = n"

definition StaticJsonDocument :: "nat \<Rightarrow> JsonDocument" where
  "StaticJsonDocument n = \<lparr>capacity = n, root = JsonNull\<rparr>"

text \<open>The members of a document whose root is an object (none for any other root).\<close>

definition members :: "JsonDocument \<Rightarrow> (string \<times> JsonVariant) list" where
  "members doc = (case root doc of JsonObject ms \<Rightarrow> ms | _ \<Rightarrow> [])"

text \<open>
  Modelled from the spec: \<open>doc[key] = value\<close> of the JSON library.  A null document becomes
  an object.  A key that is already present keeps its place and gets the new value; a new
  key is appended if the document has room for one more member and is dropped, silently,
  if it has not.  A document whose root is neither null nor an object is left as it is.
\<close>

definition set_member :: "JsonDocument \<Rightarrow> string \<Rightarrow> JsonVariant \<Rightarrow> JsonDocument" where
  "set_member doc key v =
     (case root doc of
        JsonNull \<Rightarrow>
          if 0 < capacity doc then doc\<lparr>root := JsonObject [(key, v)]\<rparr> else doc
      | JsonObject ms \<Rightarrow>
          if key \<in> fst ` set ms \<or> length ms < capacity doc
          then doc\<lparr>root := JsonObject (AList.update key v ms)\<rparr>
          else doc
      | _ \<Rightarrow> doc)"

text \<open>
  A C string (\<open>char const *\<close>) is \<open>None\<close> for the null pointer and \<open>Some s\<close> otherwise.
  Assigned to a member, the null pointer gives JSON null.
\<close>

type_synonym cstring = "string option"

definition JsonVariant_of :: "cstring \<Rightarrow> JsonVariant" where
  "JsonVariant_of s = (case s of None \<Rightarrow> JsonNull | Some str \<Rightarrow> JsonString str)"

text \<open>
  Modelled from the spec: \<open>Helper::stringIsNullorEmpty\<close> is declared in Helper.h, which is
  not part of src/.  It holds of the null pointer and of the empty string.
\<close>

definition stringIsNullorEmpty :: "cstring \<Rightarrow> bool" where
  "stringIsNullorEmpty s = (case s of None \<Rightarrow> True | Some str \<Rightarrow> str = [])"

subsection \<open>The environment\<close>

datatype log_message = SUBSCRIBE_TOPIC_FAILED

text \<open>
  A call that leaves the object: to one of the three transport callbacks (with its arguments
  and the result it reported), to a stored response handler, or to the logger.
\<close>

datatype call =
    Subscribe_Topic string bool
  | Unsubscribe_Topic string bool
  | Send_Json string JsonDocument nat bool
  | Response_Handler JsonDocument
  | Logger_printfln log_message string

record 'w env =
  calls :: "call list"
  world :: 'w

subsection \<open>The request descriptor and the object\<close>

text \<open>
  Modelled from the spec: the class \<open>Provision_Callback\<close> (the request descriptor) is
  declared in Provision_Callback.h, which is not part of src/.  It holds the response handler,
  a function of the parsed document, and the nine strings that its getters return.
  A default-constructed descriptor holds no handler and null strings; calling its handler
  does nothing.
\<close>

record 'w Provision_Callback =
  m_callback :: "(JsonDocument \<Rightarrow> 'w \<Rightarrow> 'w) option"
  Get_Device_Key :: cstring
  Get_Device_Secret :: cstring
  Get_Device_Name :: cstring
  Get_Device_Access_Token :: cstring
  Get_Credentials_Username :: cstring
  Get_Credentials_Password :: cstring
  Get_Credentials_Client_ID :: cstring
  Get_Certificate_Hash :: cstring
  Get_Credentials_Type :: cstring

definition Provision_Callback_default :: "'w Provision_Callback" where
  "Provision_Callback_default =
     \<lparr>m_callback = None, Get_Device_Key = None, Get_Device_Secret = None,
      Get_Device_Name = None, Get_Device_Access_Token = None,
      Get_Credentials_Username = None, Get_Credentials_Password = None,
      Get_Credentials_Client_ID = None, Get_Certificate_Hash = None,
      Get_Credentials_Type = None\<rparr>"

text \<open>\<open>callback.Call_Callback(data)\<close> on a descriptor: runs the handler if there is one.\<close>

definition Call_Callback :: "'w Provision_Callback \<Rightarrow> JsonDocument \<Rightarrow> 'w env \<Rightarrow> 'w env" where
  "Call_Callback callback data e =
     (case m_callback callback of
        None \<Rightarrow> e
      | Some handler \<Rightarrow>
          \<lparr>calls = calls e @ [Response_Handler data], world = handler data (world e)\<rparr>)"

text \<open>The members of the class (lines 158 to 162).\<close>

record 'w Provision =
  m_send_json_callback :: "string \<Rightarrow> JsonDocument \<Rightarrow> nat \<Rightarrow> 'w \<Rightarrow> bool \<times> 'w"
  m_subscribe_topic_callback :: "string \<Rightarrow> 'w \<Rightarrow> bool \<times> 'w"
  m_unsubscribe_topic_callback :: "string \<Rightarrow> 'w \<Rightarrow> bool \<times> 'w"
  m_provision_callback :: "'w Provision_Callback"

text \<open>Calling the three transport callbacks: the world moves on and the call is recorded.\<close>

definition Call_send_json ::
  "'w Provision \<Rightarrow> string \<Rightarrow> JsonDocument \<Rightarrow> nat \<Rightarrow> 'w env \<Rightarrow> bool \<times> 'w env" where
  "Call_send_json this topic doc n e =
     (let (ok, w) = m_send_json_callback this topic doc n (world e)
      in (ok, \<lparr>calls = calls e @ [Send_Json topic doc n ok], world = w\<rparr>))"

definition Call_subscribe_topic :: "'w Provision \<Rightarrow> string \<Rightarrow> 'w env \<Rightarrow> bool \<times> 'w env" where
  "Call_subscribe_topic this topic e =
     (let (ok, w) = m_subscribe_topic_callback this topic (world e)
      in (ok, \<lparr>calls = calls e @ [Subscribe_Topic topic ok], world = w\<rparr>))"

definition Call_unsubscribe_topic :: "'w Provision \<Rightarrow> string \<Rightarrow> 'w env \<Rightarrow> bool \<times> 'w env" where
  "Call_unsubscribe_topic this topic e =
     (let (ok, w) = m_unsubscribe_topic_callback this topic (world e)
      in (ok, \<lparr>calls = calls e @ [Unsubscribe_Topic topic ok], world = w\<rparr>))"

definition Logger_print :: "log_message \<Rightarrow> string \<Rightarrow> 'w env \<Rightarrow> 'w env" where
  "Logger_print msg arg e = e\<lparr>calls := calls e @ [Logger_printfln msg arg]\<rparr>"

subsection \<open>The private methods (lines 141 to 156)\<close>

definition Provision_Subscribe ::
  "'w Provision \<Rightarrow> 'w Provision_Callback \<Rightarrow> 'w env \<Rightarrow> bool \<times> 'w Provision \<times> 'w env" where
  "Provision_Subscribe this callback e =
     (let (ok, e1) = Call_subscribe_topic this PROV_RESPONSE_TOPIC e
      in if \<not> ok
         then (False, this, Logger_print SUBSCRIBE_TOPIC_FAILED PROV_RESPONSE_TOPIC e1)
         else (True, this\<lparr>m_provision_callback := callback\<rparr>, e1))"

definition Provision_Unsubscribe ::
  "'w Provision \<Rightarrow> 'w env \<Rightarrow> bool \<times> 'w Provision \<times> 'w env" where
  "Provision_Unsubscribe this e =
     (let this1 = this\<lparr>m_provision_callback := Provision_Callback_default\<rparr>;
          (ok, e1) = Call_unsubscribe_topic this1 PROV_RESPONSE_TOPIC e
      in (ok, this1, e1))"

subsection \<open>The public methods (lines 44 to 134)\<close>

text \<open>
  The request document of \<open>Provision_Request\<close> (lines 55 to 89): seven optional members,
  each set only if its string is neither null nor empty, then the two required ones.
\<close>

definition request_buffer :: "'w Provision_Callback \<Rightarrow> JsonDocument" where
  "request_buffer callback =
     (let request_buffer = StaticJsonDocument (JSON_OBJECT_SIZE 9);
          device_name = Get_Device_Name callback;
          access_token = Get_Device_Access_Token callback;
          cred_username = Get_Credentials_Username callback;
          cred_password = Get_Credentials_Password callback;
          cred_client_id = Get_Credentials_Client_ID callback;
          hash = Get_Certificate_Hash callback;
          credentials_type = Get_Credentials_Type callback;
          request_buffer =
            (if \<not> stringIsNullorEmpty device_name
             then set_member request_buffer DEVICE_NAME_KEY (JsonVariant_of device_name)
             else request_buffer);
          request_buffer =
            (if \<not> stringIsNullorEmpty access_token
             then set_member request_buffer PROV_TOKEN (JsonVariant_of access_token)
             else request_buffer);
          request_buffer =
            (if \<not> stringIsNullorEmpty cred_username
             then set_member request_buffer PROV_CRED_USERNAME (JsonVariant_of cred_username)
             else request_buffer);
          request_buffer =
            (if \<not> stringIsNullorEmpty cred_password
             then set_member request_buffer PROV_CRED_PASSWORD (JsonVariant_of cred_password)
             else request_buffer);
          request_buffer =
            (if \<not> stringIsNullorEmpty cred_client_id
             then set_member request_buffer PROV_CRED_CLIENT_ID (JsonVariant_of cred_client_id)
             else request_buffer);
          request_buffer =
            (if \<not> stringIsNullorEmpty hash
             then set_member request_buffer PROV_CRED_HASH (JsonVariant_of hash)
             else request_buffer);
          request_buffer =
            (if \<not> stringIsNullorEmpty credentials_type
             then set_member request_buffer PROV_CRED_TYPE_KEY (JsonVariant_of credentials_type)
             else request_buffer);
          request_buffer =
            set_member request_buffer PROV_DEVICE_KEY (JsonVariant_of (Get_Device_Key callback));
          request_buffer =
            set_member request_buffer PROV_DEVICE_SECRET_KEY
              (JsonVariant_of (Get_Device_Secret callback))
      in request_buffer)"

text \<open>
  \<open>Provision_Request\<close> (lines 44 to 91).  \<open>Helper::Measure_Json\<close>, the size of the
  serialised document, is declared in Helper.h, which is not part of src/: it is the
  parameter \<open>Measure_Json\<close>.
\<close>

definition Provision_Request ::
  "(JsonDocument \<Rightarrow> nat) \<Rightarrow> 'w Provision \<Rightarrow> 'w Provision_Callback \<Rightarrow> 'w env
     \<Rightarrow> bool \<times> 'w Provision \<times> 'w env" where
  "Provision_Request Measure_Json this callback e =
     (let provision_device_key = Get_Device_Key callback;
          provision_device_secret = Get_Device_Secret callback
      in if stringIsNullorEmpty provision_device_key
            \<or> stringIsNullorEmpty provision_device_secret
         then (False, this, e)
         else
           (let (subscribed, this1, e1) = Provision_Subscribe this callback e
            in if \<not> subscribed then (False, this1, e1)
               else
                 (let doc = request_buffer callback;
                      (sent, e2) =
                        Call_send_json this1 PROV_REQUEST_TOPIC doc (Measure_Json doc) e1
                  in (sent, this1, e2))))"

datatype API_Process_Type = RAW | JSON

definition Get_Process_Type :: "'w Provision \<Rightarrow> API_Process_Type" where
  "Get_Process_Type this = JSON"

text \<open>
  \<open>Process_Response\<close> (lines 97 to 99) has an empty body.  The payload is a list of
  bytes and its length a natural number (no arithmetic is done on it).
\<close>

definition Process_Response ::
  "'w Provision \<Rightarrow> string \<Rightarrow> 8 word list \<Rightarrow> nat \<Rightarrow> 'w env \<Rightarrow> 'w Provision \<times> 'w env" where
  "Process_Response this topic payload len e = (this, e)"

text \<open>
  \<open>Process_Json_Response\<close> (lines 101 to 106): the stored handler, then
  \<open>Provision_Unsubscribe\<close>, whose result is cast to void.
\<close>

definition Process_Json_Response ::
  "'w Provision \<Rightarrow> string \<Rightarrow> JsonDocument \<Rightarrow> 'w env \<Rightarrow> 'w Provision \<times> 'w env" where
  "Process_Json_Response this topic data e =
     (let e1 = Call_Callback (m_provision_callback this) data e;
          (ok, this1, e2) = Provision_Unsubscribe this e1
      in (this1, e2))"

definition Get_Response_Topic_String :: "'w Provision \<Rightarrow> string" where
  "Get_Response_Topic_String this = PROV_RESPONSE_TOPIC"

definition Unsubscribe :: "'w Provision \<Rightarrow> 'w env \<Rightarrow> bool \<times> 'w Provision \<times> 'w env" where
  "Unsubscribe this e = Provision_Unsubscribe this e"

definition Resubscribe_Topic ::
  "'w Provision \<Rightarrow> 'w env \<Rightarrow> bool \<times> 'w Provision \<times> 'w env" where
  "Resubscribe_Topic this e = Unsubscribe this e"

definition Initialize :: "'w Provision \<Rightarrow> 'w env \<Rightarrow> 'w Provision \<times> 'w env" where
  "Initialize this e = (this, e)"

text \<open>
  \<open>Set_Client_Callbacks\<close> (lines 130 to 134) takes eight callbacks and stores three; the
  other five are of no use here and keep whatever type they have.
\<close>

definition Set_Client_Callbacks ::
  "'w Provision \<Rightarrow> 'a \<Rightarrow> (string \<Rightarrow> JsonDocument \<Rightarrow> nat \<Rightarrow> 'w \<Rightarrow> bool \<times> 'w) \<Rightarrow> 'b
     \<Rightarrow> (string \<Rightarrow> 'w \<Rightarrow> bool \<times> 'w) \<Rightarrow> (string \<Rightarrow> 'w \<Rightarrow> bool \<times> 'w) \<Rightarrow> 'c \<Rightarrow> 'd \<Rightarrow> 'e
     \<Rightarrow> 'w Provision" where
  "Set_Client_Callbacks this subscribe_api_callback send_json_callback
       send_json_string_callback subscribe_topic_callback unsubscribe_topic_callback
       get_size_callback set_buffer_size_callback get_request_id_callback =
     this\<lparr>m_send_json_callback := send_json_callback,
          m_subscribe_topic_callback := subscribe_topic_callback,
          m_unsubscribe_topic_callback := unsubscribe_topic_callback\<rparr>"

subsection \<open>What the request document is to hold\<close>

text \<open>
  The seven optional fields of a descriptor, each with the JSON key it is sent under, in
  the order of the specification's list (deviceName, token, username, password, clientId,
  hash, credentialsType).
\<close>

definition optional_fields :: "'w Provision_Callback \<Rightarrow> (string \<times> cstring) list" where
  "optional_fields callback =
     [(DEVICE_NAME_KEY, Get_Device_Name callback),
      (PROV_TOKEN, Get_Device_Access_Token callback),
      (PROV_CRED_USERNAME, Get_Credentials_Username callback),
      (PROV_CRED_PASSWORD, Get_Credentials_Password callback),
      (PROV_CRED_CLIENT_ID, Get_Credentials_Client_ID callback),
      (PROV_CRED_HASH, Get_Certificate_Hash callback),
      (PROV_CRED_TYPE_KEY, Get_Credentials_Type callback)]"

text \<open>
  The payload as the specification words it, as a map from keys to values: the two required
  keys always, an optional key exactly if its string is not empty, and no other key.
\<close>

definition spec_payload :: "'w Provision_Callback \<Rightarrow> string \<Rightarrow> JsonVariant option" where
  "spec_payload callback key =
     (if key = PROV_DEVICE_KEY then Some (JsonVariant_of (Get_Device_Key callback))
      else if key = PROV_DEVICE_SECRET_KEY then Some (JsonVariant_of (Get_Device_Secret callback))
      else case map_of (optional_fields callback) key of
             None \<Rightarrow> None
           | Some s \<Rightarrow> if stringIsNullorEmpty s then None else Some (JsonVariant_of s))"

text \<open>The member that an optional field contributes: none if its string is empty.\<close>

definition optional_member :: "string \<times> cstring \<Rightarrow> (string \<times> JsonVariant) list" where
  "optional_member f =
     (if stringIsNullorEmpty (snd f) then [] else [(fst f, JsonVariant_of (snd f))])"

definition expected_members :: "'w Provision_Callback \<Rightarrow> (string \<times> JsonVariant) list" where
  "expected_members callback =
     concat (map optional_member (optional_fields callback)) @
     [(PROV_DEVICE_KEY, JsonVariant_of (Get_Device_Key callback)),
      (PROV_DEVICE_SECRET_KEY, JsonVariant_of (Get_Device_Secret callback))]"

text \<open>
  The state of a document under construction: capacity \<open>c\<close>, members \<open>ms\<close> (a document
  without members may still be null), at most \<open>n\<close> of them, under keys from \<open>K\<close>.
\<close>

definition filled ::
  "nat \<Rightarrow> JsonDocument \<Rightarrow> (string \<times> JsonVariant) list \<Rightarrow> nat \<Rightarrow> string set \<Rightarrow> bool" where
  "filled c doc ms n K \<longleftrightarrow>
     capacity doc = c \<and> (root doc = JsonNull \<and> ms = [] \<or> root doc = JsonObject ms) \<and>
     length ms \<le> n \<and> fst ` set ms \<subseteq> K"

text \<open>The calls recorded between an earlier environment and a later one.\<close>

definition new_calls :: "'w env \<Rightarrow> 'w env \<Rightarrow> call list" where
  "new_calls e e' = drop (length (calls e)) (calls e')"

definition is_Unsubscribe_Topic :: "call \<Rightarrow> bool" where
  "is_Unsubscribe_Topic c = (case c of Unsubscribe_Topic topic ok \<Rightarrow> True | _ \<Rightarrow> False)"

definition is_Response_Handler :: "call \<Rightarrow> bool" where
  "is_Response_Handler c = (case c of Response_Handler data \<Rightarrow> True | _ \<Rightarrow> False)"

subsection \<open>Concrete instances\<close>

text \<open>
  A transport whose three callbacks report fixed results, and a descriptor with a key, a
  secret and a device name.  The world is the list of the injected functions that ran, by
  name; a descriptor's handler writes the descriptor's name.
\<close>

definition transport ::
  "bool \<Rightarrow> bool \<Rightarrow> bool \<Rightarrow> string list Provision_Callback \<Rightarrow> string list Provision" where
  "transport subscribe_ok send_ok unsubscribe_ok slot =
     \<lparr>m_send_json_callback = (\<lambda>topic doc n w. (send_ok, w @ [''send''])),
      m_subscribe_topic_callback = (\<lambda>topic w. (subscribe_ok, w @ [''subscribe''])),
      m_unsubscribe_topic_callback = (\<lambda>topic w. (unsubscribe_ok, w @ [''unsubscribe''])),
      m_provision_callback = slot\<rparr>"

definition descriptor ::
  "string \<Rightarrow> cstring \<Rightarrow> cstring \<Rightarrow> cstring \<Rightarrow> string list Provision_Callback" where
  "descriptor name key secret device_name =
     \<lparr>m_callback = Some (\<lambda>data w. w @ [name]), Get_Device_Key = key,
      Get_Device_Secret = secret, Get_Device_Name = device_name,
      Get_Device_Access_Token = None, Get_Credentials_Username = None,
      Get_Credentials_Password = None, Get_Credentials_Client_ID = None,
      Get_Certificate_Hash = None, Get_Credentials_Type = None\<rparr>"

definition start :: "string list env" where
  "start = \<lparr>calls = [], world = []\<rparr>"

section \<open>Properties\<close>

subsection \<open>Building the request document\<close>

lemmas key_defs =
  DEVICE_NAME_KEY_def PROV_DEVICE_KEY_def PROV_DEVICE_SECRET_KEY_def PROV_CRED_TYPE_KEY_def
  PROV_TOKEN_def PROV_CRED_USERNAME_def PROV_CRED_PASSWORD_def PROV_CRED_CLIENT_ID_def
  PROV_CRED_HASH_def

lemma filled_fresh:
  "filled c (StaticJsonDocument c) [] 0 {}"
  by (simp add: filled_def StaticJsonDocument_def)

lemma update_fresh: "key \<notin> fst ` set ms \<Longrightarrow> AList.update key v ms = ms @ [(key, v)]"
  by (induction ms) auto

lemma set_member_filled:
  assumes "filled c doc ms n K" and "key \<notin> K" and "n < c"
  shows "set_member doc key v = \<lparr>capacity = c, root = JsonObject (ms @ [(key, v)])\<rparr>"
proof -
  from assms have fresh: "key \<notin> fst ` set ms" and room: "length ms < c"
    and cap: "capacity doc = c"
    by (auto simp: filled_def)
  from assms(1) consider "root doc = JsonNull" "ms = []" | "root doc = JsonObject ms"
    by (auto simp: filled_def)
  then show ?thesis
  proof cases
    case 1
    with room cap show ?thesis by (simp add: set_member_def)
  next
    case 2
    with fresh room cap show ?thesis by (simp add: set_member_def update_fresh)
  qed
qed

lemma optional_filled:
  assumes "filled c doc ms n K" and "key \<notin> K" and "n < c"
    and "n' = Suc n" and "K' = insert key K"
  shows "filled c (if \<not> stringIsNullorEmpty s then set_member doc key (JsonVariant_of s) else doc)
           (ms @ optional_member (key, s)) n' K'"
proof (cases "stringIsNullorEmpty s")
  case True
  with assms show ?thesis by (auto simp: filled_def optional_member_def)
next
  case False
  with assms set_member_filled [OF assms(1-3)] show ?thesis
    by (auto simp: filled_def optional_member_def)
qed

lemma request_buffer_eq:
  "request_buffer callback =
     \<lparr>capacity = JSON_OBJECT_SIZE 9, root = JsonObject (expected_members callback)\<rparr>"
proof -
  define c where "c = JSON_OBJECT_SIZE 9"
  have c: "c = 9" by (simp add: c_def JSON_OBJECT_SIZE_def)
  define d0 where "d0 = StaticJsonDocument c"
  define d1 where "d1 = (if \<not> stringIsNullorEmpty (Get_Device_Name callback)
    then set_member d0 DEVICE_NAME_KEY (JsonVariant_of (Get_Device_Name callback)) else d0)"
  define d2 where "d2 = (if \<not> stringIsNullorEmpty (Get_Device_Access_Token callback)
    then set_member d1 PROV_TOKEN (JsonVariant_of (Get_Device_Access_Token callback)) else d1)"
  define d3 where "d3 = (if \<not> stringIsNullorEmpty (Get_Credentials_Username callback)
    then set_member d2 PROV_CRED_USERNAME (JsonVariant_of (Get_Credentials_Username callback))
    else d2)"
  define d4 where "d4 = (if \<not> stringIsNullorEmpty (Get_Credentials_Password callback)
    then set_member d3 PROV_CRED_PASSWORD (JsonVariant_of (Get_Credentials_Password callback))
    else d3)"
  define d5 where "d5 = (if \<not> stringIsNullorEmpty (Get_Credentials_Client_ID callback)
    then set_member d4 PROV_CRED_CLIENT_ID (JsonVariant_of (Get_Credentials_Client_ID callback))
    else d4)"
  define d6 where "d6 = (if \<not> stringIsNullorEmpty (Get_Certificate_Hash callback)
    then set_member d5 PROV_CRED_HASH (JsonVariant_of (Get_Certificate_Hash callback)) else d5)"
  define d7 where "d7 = (if \<not> stringIsNullorEmpty (Get_Credentials_Type callback)
    then set_member d6 PROV_CRED_TYPE_KEY (JsonVariant_of (Get_Credentials_Type callback))
    else d6)"
  define d8 where "d8 = set_member d7 PROV_DEVICE_KEY (JsonVariant_of (Get_Device_Key callback))"
  define m1 where "m1 = [] @ optional_member (DEVICE_NAME_KEY, Get_Device_Name callback)"
  define m2 where "m2 = m1 @ optional_member (PROV_TOKEN, Get_Device_Access_Token callback)"
  define m3 where "m3 = m2 @ optional_member (PROV_CRED_USERNAME, Get_Credentials_Username callback)"
  define m4 where "m4 = m3 @ optional_member (PROV_CRED_PASSWORD, Get_Credentials_Password callback)"
  define m5 where
    "m5 = m4 @ optional_member (PROV_CRED_CLIENT_ID, Get_Credentials_Client_ID callback)"
  define m6 where "m6 = m5 @ optional_member (PROV_CRED_HASH, Get_Certificate_Hash callback)"
  define m7 where "m7 = m6 @ optional_member (PROV_CRED_TYPE_KEY, Get_Credentials_Type callback)"
  define m8 where "m8 = m7 @ [(PROV_DEVICE_KEY, JsonVariant_of (Get_Device_Key callback))]"
  have s0: "filled c d0 [] 0 {}"
    unfolding d0_def by (rule filled_fresh)
  have s1: "filled c d1 m1 1 {DEVICE_NAME_KEY}"
    unfolding d1_def m1_def
    by (rule optional_filled [OF s0]) (simp_all add: c key_defs)
  have s2: "filled c d2 m2 2 {PROV_TOKEN, DEVICE_NAME_KEY}"
    unfolding d2_def m2_def
    by (rule optional_filled [OF s1]) (simp_all add: c key_defs)
  have s3: "filled c d3 m3 3 {PROV_CRED_USERNAME, PROV_TOKEN, DEVICE_NAME_KEY}"
    unfolding d3_def m3_def
    by (rule optional_filled [OF s2]) (simp_all add: c key_defs)
  have s4: "filled c d4 m4 4
      {PROV_CRED_PASSWORD, PROV_CRED_USERNAME, PROV_TOKEN, DEVICE_NAME_KEY}"
    unfolding d4_def m4_def
    by (rule optional_filled [OF s3]) (simp_all add: c key_defs)
  have s5: "filled c d5 m5 5
      {PROV_CRED_CLIENT_ID, PROV_CRED_PASSWORD, PROV_CRED_USERNAME, PROV_TOKEN, DEVICE_NAME_KEY}"
    unfolding d5_def m5_def
    by (rule optional_filled [OF s4]) (simp_all add: c key_defs)
  have s6: "filled c d6 m6 6
      {PROV_CRED_HASH, PROV_CRED_CLIENT_ID, PROV_CRED_PASSWORD, PROV_CRED_USERNAME, PROV_TOKEN,
       DEVICE_NAME_KEY}"
    unfolding d6_def m6_def
    by (rule optional_filled [OF s5]) (simp_all add: c key_defs)
  have s7: "filled c d7 m7 7
      {PROV_CRED_TYPE_KEY, PROV_CRED_HASH, PROV_CRED_CLIENT_ID, PROV_CRED_PASSWORD,
       PROV_CRED_USERNAME, PROV_TOKEN, DEVICE_NAME_KEY}"
    unfolding d7_def m7_def
    by (rule optional_filled [OF s6]) (simp_all add: c key_defs)
  have e8: "d8 = \<lparr>capacity = c, root = JsonObject m8\<rparr>"
    unfolding d8_def m8_def
    by (rule set_member_filled [OF s7]) (simp_all add: c key_defs)
  have s8: "filled c d8 m8 8
      {PROV_DEVICE_KEY, PROV_CRED_TYPE_KEY, PROV_CRED_HASH, PROV_CRED_CLIENT_ID,
       PROV_CRED_PASSWORD, PROV_CRED_USERNAME, PROV_TOKEN, DEVICE_NAME_KEY}"
    using s7 by (auto simp: filled_def e8 m8_def)
  have e9: "set_member d8 PROV_DEVICE_SECRET_KEY (JsonVariant_of (Get_Device_Secret callback)) =
      \<lparr>capacity = c, root = JsonObject
         (m8 @ [(PROV_DEVICE_SECRET_KEY, JsonVariant_of (Get_Device_Secret callback))])\<rparr>"
    by (rule set_member_filled [OF s8]) (simp_all add: c key_defs)
  have "request_buffer callback =
      set_member d8 PROV_DEVICE_SECRET_KEY (JsonVariant_of (Get_Device_Secret callback))"
    unfolding request_buffer_def Let_def d8_def d7_def d6_def d5_def d4_def d3_def d2_def d1_def
      d0_def c_def ..
  also note e9
  finally show ?thesis
    by (simp add: c_def expected_members_def optional_fields_def m8_def m7_def m6_def m5_def m4_def m3_def m2_def
        m1_def)
qed



lemma optional_member_Pair:
  "optional_member (k, s) = (if stringIsNullorEmpty s then [] else [(k, JsonVariant_of s)])"
  by (simp add: optional_member_def)

lemma map_of_optional:
  "distinct (map fst fs) \<Longrightarrow>
   map_of (concat (map optional_member fs)) k =
     (case map_of fs k of
        None \<Rightarrow> None
      | Some s \<Rightarrow> if stringIsNullorEmpty s then None else Some (JsonVariant_of s))"
proof (induction fs)
  case Nil
  then show ?case by simp
next
  case (Cons f fs)
  obtain k' s where f: "f = (k', s)" by (cases f)
  from Cons.prems f have fresh: "map_of fs k' = None"
    by (simp add: map_of_eq_None_iff)
  from Cons have IH: "map_of (concat (map optional_member fs)) k =
      (case map_of fs k of
         None \<Rightarrow> None
       | Some s \<Rightarrow> if stringIsNullorEmpty s then None else Some (JsonVariant_of s))"
    by simp
  show ?case
  proof (cases "k = k'")
    case True
    with IH fresh show ?thesis
      by (simp add: f optional_member_Pair map_add_def)
  next
    case False
    with IH show ?thesis
      by (simp add: f optional_member_Pair map_add_def)
  qed
qed

lemma keys_optional: "fst ` set (concat (map optional_member fs)) \<subseteq> fst ` set fs"
  by (induction fs) (auto simp: optional_member_def split: if_splits)

lemma distinct_optional:
  "distinct (map fst fs) \<Longrightarrow> distinct (map fst (concat (map optional_member fs)))"
proof (induction fs)
  case Nil
  then show ?case by simp
next
  case (Cons f fs)
  with keys_optional [of fs] show ?case
    by (auto simp: optional_member_def)
qed

lemma length_optional:
  "length (concat (map optional_member fs)) =
   length (filter (\<lambda>f. \<not> stringIsNullorEmpty (snd f)) fs)"
  by (induction fs) (simp_all add: optional_member_def)

lemma distinct_optional_fields: "distinct (map fst (optional_fields callback))"
  by (simp add: optional_fields_def key_defs)

lemma required_not_optional:
  "PROV_DEVICE_KEY \<notin> fst ` set (optional_fields callback)"
  "PROV_DEVICE_SECRET_KEY \<notin> fst ` set (optional_fields callback)"
  "PROV_DEVICE_KEY \<noteq> PROV_DEVICE_SECRET_KEY"
  by (simp_all add: optional_fields_def key_defs)

lemma required_not_optional_member:
  "PROV_DEVICE_KEY \<notin> fst ` set (concat (map optional_member (optional_fields callback)))"
  "PROV_DEVICE_SECRET_KEY \<notin> fst ` set (concat (map optional_member (optional_fields callback)))"
  using keys_optional [of "optional_fields callback"] required_not_optional(1,2) [of callback]
  by blast+

lemma distinct_expected_members: "distinct (map fst (expected_members callback))"
  using required_not_optional_member [of callback] required_not_optional(3)
    distinct_optional [OF distinct_optional_fields [of callback]]
  by (simp add: expected_members_def)

lemma map_of_expected_members: "map_of (expected_members callback) k = spec_payload callback k"
proof -
  have "map_of (expected_members callback) k =
      (if k = PROV_DEVICE_KEY then Some (JsonVariant_of (Get_Device_Key callback))
       else if k = PROV_DEVICE_SECRET_KEY
         then Some (JsonVariant_of (Get_Device_Secret callback))
       else map_of (concat (map optional_member (optional_fields callback))) k)"
  proof -
    let ?opt = "concat (map optional_member (optional_fields callback))"
    have "PROV_DEVICE_KEY \<notin> fst ` set ?opt" and "PROV_DEVICE_SECRET_KEY \<notin> fst ` set ?opt"
      by (rule required_not_optional_member)+
    then have "map_of ?opt PROV_DEVICE_KEY = None" and "map_of ?opt PROV_DEVICE_SECRET_KEY = None"
      by (simp_all add: map_of_eq_None_iff)
    then show ?thesis
      using required_not_optional(3)
      by (simp add: expected_members_def map_add_def split: option.splits)
  qed
  then show ?thesis
    by (simp add: spec_payload_def map_of_optional [OF distinct_optional_fields])
qed

lemma length_expected_members:
  "length (expected_members callback) =
   2 + length (filter (\<lambda>f. \<not> stringIsNullorEmpty (snd f)) (optional_fields callback))"
  by (simp add: expected_members_def length_optional)

lemma request_buffer_handler:
  "request_buffer (callback\<lparr>m_callback := h\<rparr>) = request_buffer callback"
  by (simp add: request_buffer_eq expected_members_def optional_fields_def)

subsection \<open>The methods, case by case\<close>

lemma Provision_Subscribe_eq:
  "Provision_Subscribe this callback e =
     (if fst (m_subscribe_topic_callback this PROV_RESPONSE_TOPIC (world e))
      then (True, this\<lparr>m_provision_callback := callback\<rparr>,
            \<lparr>calls = calls e @ [Subscribe_Topic PROV_RESPONSE_TOPIC True],
             world = snd (m_subscribe_topic_callback this PROV_RESPONSE_TOPIC (world e))\<rparr>)
      else (False, this,
            \<lparr>calls = calls e @ [Subscribe_Topic PROV_RESPONSE_TOPIC False,
                                 Logger_printfln SUBSCRIBE_TOPIC_FAILED PROV_RESPONSE_TOPIC],
             world = snd (m_subscribe_topic_callback this PROV_RESPONSE_TOPIC (world e))\<rparr>))"
  by (auto simp: Provision_Subscribe_def Call_subscribe_topic_def Logger_print_def
      split: prod.splits)

lemma Provision_Unsubscribe_eq:
  "Provision_Unsubscribe this e =
     (fst (m_unsubscribe_topic_callback this PROV_RESPONSE_TOPIC (world e)),
      this\<lparr>m_provision_callback := Provision_Callback_default\<rparr>,
      \<lparr>calls = calls e @
         [Unsubscribe_Topic PROV_RESPONSE_TOPIC
            (fst (m_unsubscribe_topic_callback this PROV_RESPONSE_TOPIC (world e)))],
       world = snd (m_unsubscribe_topic_callback this PROV_RESPONSE_TOPIC (world e))\<rparr>)"
  by (simp add: Provision_Unsubscribe_def Call_unsubscribe_topic_def split: prod.splits)

lemma Provision_Request_invalid:
  assumes "stringIsNullorEmpty (Get_Device_Key callback)
     \<or> stringIsNullorEmpty (Get_Device_Secret callback)"
  shows "Provision_Request Measure_Json this callback e = (False, this, e)"
  using assms by (simp add: Provision_Request_def)

lemma Provision_Request_refused:
  assumes "\<not> stringIsNullorEmpty (Get_Device_Key callback)"
    and "\<not> stringIsNullorEmpty (Get_Device_Secret callback)"
    and "\<not> fst (m_subscribe_topic_callback this PROV_RESPONSE_TOPIC (world e))"
  shows "Provision_Request Measure_Json this callback e =
     (False, this,
      \<lparr>calls = calls e @ [Subscribe_Topic PROV_RESPONSE_TOPIC False,
                           Logger_printfln SUBSCRIBE_TOPIC_FAILED PROV_RESPONSE_TOPIC],
       world = snd (m_subscribe_topic_callback this PROV_RESPONSE_TOPIC (world e))\<rparr>)"
  using assms by (simp add: Provision_Request_def Provision_Subscribe_eq)

lemma Provision_Request_subscribed:
  assumes "\<not> stringIsNullorEmpty (Get_Device_Key callback)"
    and "\<not> stringIsNullorEmpty (Get_Device_Secret callback)"
    and "fst (m_subscribe_topic_callback this PROV_RESPONSE_TOPIC (world e))"
    and "doc = request_buffer callback"
    and "r = m_send_json_callback this PROV_REQUEST_TOPIC doc (Measure_Json doc)
               (snd (m_subscribe_topic_callback this PROV_RESPONSE_TOPIC (world e)))"
  shows "Provision_Request Measure_Json this callback e =
     (fst r, this\<lparr>m_provision_callback := callback\<rparr>,
      \<lparr>calls = calls e @ [Subscribe_Topic PROV_RESPONSE_TOPIC True,
                           Send_Json PROV_REQUEST_TOPIC doc (Measure_Json doc) (fst r)],
       world = snd r\<rparr>)"
  using assms
  by (simp add: Provision_Request_def Provision_Subscribe_eq Call_send_json_def Let_def
      split: prod.splits)

lemma Process_Json_Response_eq:
  "Process_Json_Response this topic data e =
     (this\<lparr>m_provision_callback := Provision_Callback_default\<rparr>,
      snd (Call_unsubscribe_topic this PROV_RESPONSE_TOPIC
             (Call_Callback (m_provision_callback this) data e)))"
  by (simp add: Process_Json_Response_def Provision_Unsubscribe_def Call_unsubscribe_topic_def
      split: prod.splits)

lemma new_calls_append: "calls e' = calls e @ cs \<Longrightarrow> new_calls e e' = cs"
  by (simp add: new_calls_def)


subsection \<open>Rejected requests\<close>

text \<open>
  C2.  A descriptor whose provisioning key is null or empty, or whose provisioning secret is
  null or empty, is rejected at once: \<open>Provision_Request\<close> returns false, the object
  (and with it the correlation slot) is as before, and so is the environment: no callback
  was called, neither subscribe nor publish.
\<close>

theorem Provision_Request_rejects_empty:
  assumes "stringIsNullorEmpty (Get_Device_Key callback)
     \<or> stringIsNullorEmpty (Get_Device_Secret callback)"
  shows "Provision_Request Measure_Json this callback e = (False, this, e)"
  using assms by (rule Provision_Request_invalid)

theorem Provision_Request_rejects_empty_witness:
  "stringIsNullorEmpty (Get_Device_Key (descriptor ''d'' (Some []) (Some ''xyz'') None)) \<and>
   Provision_Request (\<lambda>doc. 0)
       (transport True True True (descriptor ''old'' None None None))
       (descriptor ''d'' (Some []) (Some ''xyz'') None) start =
     (False, transport True True True (descriptor ''old'' None None None), start) \<and>
   stringIsNullorEmpty (Get_Device_Secret (descriptor ''d'' (Some ''abc'') None None)) \<and>
   Provision_Request (\<lambda>doc. 0)
       (transport True True True (descriptor ''old'' None None None))
       (descriptor ''d'' (Some ''abc'') None None) start =
     (False, transport True True True (descriptor ''old'' None None None), start)"
  using
    Provision_Request_rejects_empty [of "descriptor ''d'' (Some []) (Some ''xyz'') None"
      "\<lambda>doc. 0" "transport True True True (descriptor ''old'' None None None)" start]
    Provision_Request_rejects_empty [of "descriptor ''d'' (Some ''abc'') None None"
      "\<lambda>doc. 0" "transport True True True (descriptor ''old'' None None None)" start]
  by (simp add: descriptor_def stringIsNullorEmpty_def)

text \<open>
  C3.  With a key and a secret that are not empty, if the subscribe-topic callback reports
  failure then \<open>Provision_Request\<close> returns false and the object is as before: the slot
  keeps the handler it held and the descriptor's handler is not stored.  The only calls made
  are the failed subscription and the log line: the publish callback is not called.
\<close>

theorem Provision_Request_subscribe_failure:
  assumes "\<not> stringIsNullorEmpty (Get_Device_Key callback)"
    and "\<not> stringIsNullorEmpty (Get_Device_Secret callback)"
    and "\<not> fst (m_subscribe_topic_callback this PROV_RESPONSE_TOPIC (world e))"
  shows "Provision_Request Measure_Json this callback e =
     (False, this,
      \<lparr>calls = calls e @ [Subscribe_Topic PROV_RESPONSE_TOPIC False,
                           Logger_printfln SUBSCRIBE_TOPIC_FAILED PROV_RESPONSE_TOPIC],
       world = snd (m_subscribe_topic_callback this PROV_RESPONSE_TOPIC (world e))\<rparr>)"
  using assms by (rule Provision_Request_refused)

theorem Provision_Request_subscribe_failure_witness:
  "\<not> stringIsNullorEmpty (Get_Device_Key (descriptor ''d'' (Some ''abc'') (Some ''xyz'') None)) \<and>
   \<not> stringIsNullorEmpty (Get_Device_Secret (descriptor ''d'' (Some ''abc'') (Some ''xyz'') None)) \<and>
   \<not> fst (m_subscribe_topic_callback
            (transport False True True (descriptor ''old'' None None None))
            PROV_RESPONSE_TOPIC (world start)) \<and>
   Provision_Request (\<lambda>doc. 0)
       (transport False True True (descriptor ''old'' None None None))
       (descriptor ''d'' (Some ''abc'') (Some ''xyz'') None) start =
     (False, transport False True True (descriptor ''old'' None None None),
      \<lparr>calls = [Subscribe_Topic ''/provision/response'' False,
                 Logger_printfln SUBSCRIBE_TOPIC_FAILED ''/provision/response''],
       world = [''subscribe'']\<rparr>)"
  using
    Provision_Request_subscribe_failure [of "descriptor ''d'' (Some ''abc'') (Some ''xyz'') None"
      "transport False True True (descriptor ''old'' None None None)" start "\<lambda>doc. 0"]
  by (simp add: descriptor_def transport_def start_def stringIsNullorEmpty_def
      PROV_RESPONSE_TOPIC_def)


subsection \<open>Accepted requests\<close>

text \<open>
  C1.  With a key and a secret that are not empty (and the subscription accepted, so that a
  payload is built at all), \<open>Provision_Request\<close> publishes on the request topic a document
  whose root is an object with pairwise distinct keys that, as a map, is the payload of the
  specification: the two required keys, one key for each optional field (deviceName, token,
  username, password, clientId, hash, credentialsType) whose string is not empty, and no key
  for an empty optional field.  In particular, for key "abc", secret "xyz" and device name
  "dev1" the document is the object deviceName: dev1, provisionDeviceKey: abc,
  provisionDeviceSecret: xyz, in this order.
\<close>

theorem Provision_Request_payload:
  "(\<not> stringIsNullorEmpty (Get_Device_Key callback) \<and>
    \<not> stringIsNullorEmpty (Get_Device_Secret callback) \<and>
    fst (m_subscribe_topic_callback this PROV_RESPONSE_TOPIC (world e)) \<longrightarrow>
    (\<exists>ms sent.
       calls (snd (snd (Provision_Request Measure_Json this callback e))) =
         calls e @
         [Subscribe_Topic PROV_RESPONSE_TOPIC True,
          Send_Json PROV_REQUEST_TOPIC
            \<lparr>capacity = JSON_OBJECT_SIZE 9, root = JsonObject ms\<rparr>
            (Measure_Json \<lparr>capacity = JSON_OBJECT_SIZE 9, root = JsonObject ms\<rparr>) sent] \<and>
       distinct (map fst ms) \<and>
       (\<forall>key. map_of ms key = spec_payload callback key))) \<and>
   (fst (m_subscribe_topic_callback this PROV_RESPONSE_TOPIC (world e)) \<longrightarrow>
    (\<exists>n sent.
       calls (snd (snd (Provision_Request Measure_Json this
          \<lparr>m_callback = handler, Get_Device_Key = Some ''abc'',
           Get_Device_Secret = Some ''xyz'', Get_Device_Name = Some ''dev1'',
           Get_Device_Access_Token = None, Get_Credentials_Username = None,
           Get_Credentials_Password = None, Get_Credentials_Client_ID = None,
           Get_Certificate_Hash = None, Get_Credentials_Type = None\<rparr> e))) =
         calls e @
         [Subscribe_Topic PROV_RESPONSE_TOPIC True,
          Send_Json PROV_REQUEST_TOPIC
            \<lparr>capacity = JSON_OBJECT_SIZE 9,
             root = JsonObject
               [(''deviceName'', JsonString ''dev1''),
                (''provisionDeviceKey'', JsonString ''abc''),
                (''provisionDeviceSecret'', JsonString ''xyz'')]\<rparr> n sent]))"
proof (intro conjI impI)
  assume valid: "\<not> stringIsNullorEmpty (Get_Device_Key callback) \<and>
    \<not> stringIsNullorEmpty (Get_Device_Secret callback) \<and>
    fst (m_subscribe_topic_callback this PROV_RESPONSE_TOPIC (world e))"
  let ?ms = "expected_members callback"
  let ?doc = "\<lparr>capacity = JSON_OBJECT_SIZE 9, root = JsonObject ?ms\<rparr>"
  let ?r = "m_send_json_callback this PROV_REQUEST_TOPIC ?doc (Measure_Json ?doc)
     (snd (m_subscribe_topic_callback this PROV_RESPONSE_TOPIC (world e)))"
  have "calls (snd (snd (Provision_Request Measure_Json this callback e))) =
      calls e @ [Subscribe_Topic PROV_RESPONSE_TOPIC True,
                 Send_Json PROV_REQUEST_TOPIC ?doc (Measure_Json ?doc) (fst ?r)]"
    using valid
    by (simp add: Provision_Request_subscribed [where doc = ?doc and r = ?r]
        request_buffer_eq)
  moreover have "distinct (map fst ?ms)"
    by (rule distinct_expected_members)
  moreover have "\<forall>key. map_of ?ms key = spec_payload callback key"
    by (simp add: map_of_expected_members)
  ultimately show "\<exists>ms sent.
       calls (snd (snd (Provision_Request Measure_Json this callback e))) =
         calls e @
         [Subscribe_Topic PROV_RESPONSE_TOPIC True,
          Send_Json PROV_REQUEST_TOPIC
            \<lparr>capacity = JSON_OBJECT_SIZE 9, root = JsonObject ms\<rparr>
            (Measure_Json \<lparr>capacity = JSON_OBJECT_SIZE 9, root = JsonObject ms\<rparr>) sent] \<and>
       distinct (map fst ms) \<and>
       (\<forall>key. map_of ms key = spec_payload callback key)"
    by blast
next
  assume subscribed: "fst (m_subscribe_topic_callback this PROV_RESPONSE_TOPIC (world e))"
  let ?cb = "\<lparr>m_callback = handler, Get_Device_Key = Some ''abc'',
           Get_Device_Secret = Some ''xyz'', Get_Device_Name = Some ''dev1'',
           Get_Device_Access_Token = None, Get_Credentials_Username = None,
           Get_Credentials_Password = None, Get_Credentials_Client_ID = None,
           Get_Certificate_Hash = None, Get_Credentials_Type = None\<rparr>"
  let ?doc = "\<lparr>capacity = JSON_OBJECT_SIZE 9,
             root = JsonObject
               [(''deviceName'', JsonString ''dev1''),
                (''provisionDeviceKey'', JsonString ''abc''),
                (''provisionDeviceSecret'', JsonString ''xyz'')]\<rparr>"
  let ?r = "m_send_json_callback this PROV_REQUEST_TOPIC ?doc (Measure_Json ?doc)
     (snd (m_subscribe_topic_callback this PROV_RESPONSE_TOPIC (world e)))"
  have doc: "?doc = request_buffer ?cb"
    by (simp add: request_buffer_eq expected_members_def optional_fields_def
        optional_member_Pair stringIsNullorEmpty_def JsonVariant_of_def key_defs)
  have "Provision_Request Measure_Json this ?cb e =
     (fst ?r, this\<lparr>m_provision_callback := ?cb\<rparr>,
      \<lparr>calls = calls e @ [Subscribe_Topic PROV_RESPONSE_TOPIC True,
                           Send_Json PROV_REQUEST_TOPIC ?doc (Measure_Json ?doc) (fst ?r)],
       world = snd ?r\<rparr>)"
    by (rule Provision_Request_subscribed [OF _ _ subscribed doc])
      (simp_all add: stringIsNullorEmpty_def)
  then show "\<exists>n sent.
       calls (snd (snd (Provision_Request Measure_Json this ?cb e))) =
         calls e @
         [Subscribe_Topic PROV_RESPONSE_TOPIC True, Send_Json PROV_REQUEST_TOPIC ?doc n sent]"
    by simp
qed

lemma request_buffer_descriptor:
  "request_buffer (descriptor name key secret device_name) =
     \<lparr>capacity = JSON_OBJECT_SIZE 9,
      root = JsonObject
        (optional_member (DEVICE_NAME_KEY, device_name) @
         [(PROV_DEVICE_KEY, JsonVariant_of key),
          (PROV_DEVICE_SECRET_KEY, JsonVariant_of secret)])\<rparr>"
  by (simp add: request_buffer_eq expected_members_def optional_fields_def descriptor_def
      optional_member_Pair stringIsNullorEmpty_def)

theorem Provision_Request_payload_witness:
  "\<not> stringIsNullorEmpty (Get_Device_Key (descriptor ''d'' (Some ''k'') (Some ''s'') (Some []))) \<and>
   \<not> stringIsNullorEmpty
       (Get_Device_Secret (descriptor ''d'' (Some ''k'') (Some ''s'') (Some []))) \<and>
   fst (m_subscribe_topic_callback
          (transport True False True (descriptor ''old'' None None None))
          PROV_RESPONSE_TOPIC (world start)) \<and>
   (\<exists>ms sent.
       calls (snd (snd (Provision_Request (\<lambda>doc. length (members doc))
           (transport True False True (descriptor ''old'' None None None))
           (descriptor ''d'' (Some ''k'') (Some ''s'') (Some [])) start))) =
         calls start @
         [Subscribe_Topic PROV_RESPONSE_TOPIC True,
          Send_Json PROV_REQUEST_TOPIC
            \<lparr>capacity = JSON_OBJECT_SIZE 9, root = JsonObject ms\<rparr>
            (length ms) sent] \<and>
       ms = [(''provisionDeviceKey'', JsonString ''k''),
             (''provisionDeviceSecret'', JsonString ''s'')] \<and>
       distinct (map fst ms) \<and>
       (\<forall>key. map_of ms key =
          spec_payload (descriptor ''d'' (Some ''k'') (Some ''s'') (Some [])) key))"
proof -
  let ?cb = "descriptor ''d'' (Some ''k'') (Some ''s'') (Some [])"
  let ?obj = "transport True False True (descriptor ''old'' None None None)"
  have h: "\<not> stringIsNullorEmpty (Get_Device_Key ?cb)"
    "\<not> stringIsNullorEmpty (Get_Device_Secret ?cb)"
    "fst (m_subscribe_topic_callback ?obj PROV_RESPONSE_TOPIC (world start))"
    by (simp_all add: descriptor_def transport_def stringIsNullorEmpty_def)
  have "calls (snd (snd (Provision_Request (\<lambda>doc. length (members doc)) ?obj ?cb start))) =
      calls start @
         [Subscribe_Topic PROV_RESPONSE_TOPIC True,
          Send_Json PROV_REQUEST_TOPIC
            \<lparr>capacity = JSON_OBJECT_SIZE 9, root = JsonObject
               [(''provisionDeviceKey'', JsonString ''k''),
                (''provisionDeviceSecret'', JsonString ''s'')]\<rparr> 2 False]"
    using h
    by (simp add: Provision_Request_subscribed [OF _ _ _ refl refl] request_buffer_descriptor
        optional_member_Pair stringIsNullorEmpty_def JsonVariant_of_def key_defs members_def
        transport_def)
  note concrete = this
  from h Provision_Request_payload [of ?cb ?obj start "\<lambda>doc. length (members doc)"]
  obtain ms sent where
    sent: "calls (snd (snd (Provision_Request (\<lambda>doc. length (members doc)) ?obj ?cb start))) =
         calls start @
         [Subscribe_Topic PROV_RESPONSE_TOPIC True,
          Send_Json PROV_REQUEST_TOPIC
            \<lparr>capacity = JSON_OBJECT_SIZE 9, root = JsonObject ms\<rparr>
            (length (members \<lparr>capacity = JSON_OBJECT_SIZE 9, root = JsonObject ms\<rparr>)) sent]"
    and payload: "distinct (map fst ms)" "\<forall>key. map_of ms key = spec_payload ?cb key"
    by blast
  from sent concrete have ms: "ms = [(''provisionDeviceKey'', JsonString ''k''),
             (''provisionDeviceSecret'', JsonString ''s'')]"
    by simp
  from sent have "calls (snd (snd (Provision_Request (\<lambda>doc. length (members doc)) ?obj ?cb start))) =
         calls start @
         [Subscribe_Topic PROV_RESPONSE_TOPIC True,
          Send_Json PROV_REQUEST_TOPIC
            \<lparr>capacity = JSON_OBJECT_SIZE 9, root = JsonObject ms\<rparr> (length ms) sent]"
    by (simp add: members_def)
  with h ms payload show ?thesis
    by blast
qed


lemma new_calls_same: "new_calls e e = []"
  by (simp add: new_calls_def)

text \<open>
  C4.  \<open>Provision_Request\<close> returns true exactly if both the subscribe-topic callback and
  the send-JSON callback report success.  This is stated twice.  On the injected functions:
  for a descriptor with a key and a secret, the result is true exactly if the subscribe-topic
  function succeeds on the response topic and the send-JSON function then succeeds on the
  request topic with the request document (a descriptor without key or secret calls neither,
  so that neither reports anything, and the result is false).  On the calls made: the result
  is true exactly if a successful subscription and a successful publication were recorded,
  and what is recorded is what the two functions returned.
  If the subscription succeeds and the publication fails, then the call returns false, the
  object is the one before the call with the descriptor stored in the correlation slot, and
  the calls made are the subscription and the publication: no unsubscription.
\<close>

theorem Provision_Request_result:
  assumes run: "Provision_Request Measure_Json this callback e = (ok, this', e')"
    and doc: "doc = request_buffer callback"
    and subscribe: "s = m_subscribe_topic_callback this PROV_RESPONSE_TOPIC (world e)"
    and send: "r = m_send_json_callback this PROV_REQUEST_TOPIC doc (Measure_Json doc) (snd s)"
  shows "(ok \<longleftrightarrow>
             \<not> stringIsNullorEmpty (Get_Device_Key callback) \<and>
             \<not> stringIsNullorEmpty (Get_Device_Secret callback) \<and> fst s \<and> fst r) \<and>
         (\<not> stringIsNullorEmpty (Get_Device_Key callback) \<and>
          \<not> stringIsNullorEmpty (Get_Device_Secret callback) \<and> fst s \<longrightarrow>
            ok = fst r \<and> this' = this\<lparr>m_provision_callback := callback\<rparr> \<and>
            e' = \<lparr>calls = calls e @
                    [Subscribe_Topic PROV_RESPONSE_TOPIC True,
                     Send_Json PROV_REQUEST_TOPIC doc (Measure_Json doc) (fst r)],
                  world = snd r\<rparr>) \<and>
         (\<not> stringIsNullorEmpty (Get_Device_Key callback) \<and>
          \<not> stringIsNullorEmpty (Get_Device_Secret callback) \<and> fst s \<and> \<not> fst r \<longrightarrow>
            \<not> ok \<and> m_provision_callback this' = callback \<and>
            new_calls e e' =
              [Subscribe_Topic PROV_RESPONSE_TOPIC True,
               Send_Json PROV_REQUEST_TOPIC doc (Measure_Json doc) False] \<and>
            filter is_Unsubscribe_Topic (new_calls e e') = []) \<and>
         (Subscribe_Topic PROV_RESPONSE_TOPIC True \<in> set (new_calls e e') \<longleftrightarrow>
            \<not> stringIsNullorEmpty (Get_Device_Key callback) \<and>
            \<not> stringIsNullorEmpty (Get_Device_Secret callback) \<and> fst s) \<and>
         ((\<exists>doc n. Send_Json PROV_REQUEST_TOPIC doc n True \<in> set (new_calls e e')) \<longleftrightarrow>
            \<not> stringIsNullorEmpty (Get_Device_Key callback) \<and>
            \<not> stringIsNullorEmpty (Get_Device_Secret callback) \<and> fst s \<and> fst r) \<and>
         (ok \<longleftrightarrow>
             Subscribe_Topic PROV_RESPONSE_TOPIC True \<in> set (new_calls e e') \<and>
             (\<exists>doc n. Send_Json PROV_REQUEST_TOPIC doc n True \<in> set (new_calls e e'))) \<and>
         (Subscribe_Topic PROV_RESPONSE_TOPIC True \<in> set (new_calls e e') \<and>
          (\<exists>doc n. Send_Json PROV_REQUEST_TOPIC doc n False \<in> set (new_calls e e')) \<longrightarrow>
            \<not> ok \<and> this' = this\<lparr>m_provision_callback := callback\<rparr> \<and>
            filter is_Unsubscribe_Topic (new_calls e e') = [])"
proof -
  consider
    (invalid) "stringIsNullorEmpty (Get_Device_Key callback)
       \<or> stringIsNullorEmpty (Get_Device_Secret callback)"
  | (refused) "\<not> stringIsNullorEmpty (Get_Device_Key callback)"
      "\<not> stringIsNullorEmpty (Get_Device_Secret callback)"
      "\<not> fst (m_subscribe_topic_callback this PROV_RESPONSE_TOPIC (world e))"
  | (subscribed) "\<not> stringIsNullorEmpty (Get_Device_Key callback)"
      "\<not> stringIsNullorEmpty (Get_Device_Secret callback)"
      "fst (m_subscribe_topic_callback this PROV_RESPONSE_TOPIC (world e))"
    by blast
  then show ?thesis
  proof cases
    case invalid
    from Provision_Request_invalid [OF invalid, of Measure_Json this e] run
    have "\<not> ok" and "e' = e"
      by simp_all
    with invalid show ?thesis
      by (auto simp: new_calls_same)
  next
    case refused
    from Provision_Request_refused [OF refused, of Measure_Json] run
    have "\<not> ok" and "calls e' = calls e @ [Subscribe_Topic PROV_RESPONSE_TOPIC False,
        Logger_printfln SUBSCRIBE_TOPIC_FAILED PROV_RESPONSE_TOPIC]"
      by auto
    with refused show ?thesis
      by (simp add: new_calls_append subscribe)
  next
    case subscribed
    from subscribed(3) have s: "fst s"
      by (simp add: subscribe)
    have r: "r = m_send_json_callback this PROV_REQUEST_TOPIC doc (Measure_Json doc)
      (snd (m_subscribe_topic_callback this PROV_RESPONSE_TOPIC (world e)))"
      by (simp add: send subscribe)
    from Provision_Request_subscribed
        [where Measure_Json = Measure_Json, OF subscribed doc r] run
    have ok: "ok = fst r" and obj: "this' = this\<lparr>m_provision_callback := callback\<rparr>"
      and env: "e' = \<lparr>calls = calls e @ [Subscribe_Topic PROV_RESPONSE_TOPIC True,
         Send_Json PROV_REQUEST_TOPIC doc (Measure_Json doc) (fst r)], world = snd r\<rparr>"
      by auto
    from env have new: "new_calls e e' = [Subscribe_Topic PROV_RESPONSE_TOPIC True,
         Send_Json PROV_REQUEST_TOPIC doc (Measure_Json doc) (fst r)]"
      by (simp add: new_calls_append)
    from subscribed(1,2) s ok obj env show ?thesis
      unfolding new by (auto simp: is_Unsubscribe_Topic_def)
  qed
qed

theorem Provision_Request_result_witness:
  "Provision_Request (\<lambda>doc. 0) (transport True True True (descriptor ''old'' None None None))
       (descriptor ''new'' (Some ''abc'') (Some ''xyz'') None) start =
     (True, transport True True True (descriptor ''new'' (Some ''abc'') (Some ''xyz'') None),
      \<lparr>calls =
         [Subscribe_Topic PROV_RESPONSE_TOPIC True,
          Send_Json PROV_REQUEST_TOPIC
            (request_buffer (descriptor ''new'' (Some ''abc'') (Some ''xyz'') None)) 0 True],
       world = [''subscribe'', ''send'']\<rparr>) \<and>
   fst (m_subscribe_topic_callback
          (transport True True True (descriptor ''old'' None None None))
          PROV_RESPONSE_TOPIC (world start)) \<and>
   fst (m_send_json_callback
          (transport True True True (descriptor ''old'' None None None))
          PROV_REQUEST_TOPIC
          (request_buffer (descriptor ''new'' (Some ''abc'') (Some ''xyz'') None)) 0
          [''subscribe'']) \<and>
   Provision_Request (\<lambda>doc. 0) (transport True False True (descriptor ''old'' None None None))
       (descriptor ''new'' (Some ''abc'') (Some ''xyz'') None) start =
     (False, transport True False True (descriptor ''new'' (Some ''abc'') (Some ''xyz'') None),
      \<lparr>calls =
         [Subscribe_Topic PROV_RESPONSE_TOPIC True,
          Send_Json PROV_REQUEST_TOPIC
            (request_buffer (descriptor ''new'' (Some ''abc'') (Some ''xyz'') None)) 0 False],
       world = [''subscribe'', ''send'']\<rparr>) \<and>
   fst (m_subscribe_topic_callback
          (transport True False True (descriptor ''old'' None None None))
          PROV_RESPONSE_TOPIC (world start)) \<and>
   \<not> fst (m_send_json_callback
          (transport True False True (descriptor ''old'' None None None))
          PROV_REQUEST_TOPIC
          (request_buffer (descriptor ''new'' (Some ''abc'') (Some ''xyz'') None)) 0
          [''subscribe'']) \<and>
   transport True False True (descriptor ''new'' (Some ''abc'') (Some ''xyz'') None) =
     (transport True False True (descriptor ''old'' None None None))
       \<lparr>m_provision_callback := descriptor ''new'' (Some ''abc'') (Some ''xyz'') None\<rparr> \<and>
   filter is_Unsubscribe_Topic
     (new_calls start
       \<lparr>calls =
         [Subscribe_Topic PROV_RESPONSE_TOPIC True,
          Send_Json PROV_REQUEST_TOPIC
            (request_buffer (descriptor ''new'' (Some ''abc'') (Some ''xyz'') None)) 0 False],
        world = [''subscribe'', ''send'']\<rparr>) = []"
proof -
  let ?cb = "descriptor ''new'' (Some ''abc'') (Some ''xyz'') None"
  let ?old = "descriptor ''old'' None None None"
  let ?doc = "request_buffer ?cb"
  define good where "good = Provision_Request (\<lambda>doc. 0) (transport True True True ?old) ?cb start"
  define bad where "bad = Provision_Request (\<lambda>doc. 0) (transport True False True ?old) ?cb start"
  have valid: "\<not> stringIsNullorEmpty (Get_Device_Key ?cb)"
    "\<not> stringIsNullorEmpty (Get_Device_Secret ?cb)"
    by (simp_all add: descriptor_def stringIsNullorEmpty_def)
  have good_run: "Provision_Request (\<lambda>doc. 0) (transport True True True ?old) ?cb start =
      (fst good, fst (snd good), snd (snd good))"
    by (simp add: good_def)
  have bad_run: "Provision_Request (\<lambda>doc. 0) (transport True False True ?old) ?cb start =
      (fst bad, fst (snd bad), snd (snd bad))"
    by (simp add: bad_def)
  note good_result = Provision_Request_result [OF good_run refl refl refl]
  note bad_result = Provision_Request_result [OF bad_run refl refl refl]
  have good_sub: "fst (m_subscribe_topic_callback (transport True True True ?old)
      PROV_RESPONSE_TOPIC (world start))"
    and good_send: "fst (m_send_json_callback (transport True True True ?old)
      PROV_REQUEST_TOPIC ?doc 0 [''subscribe''])"
    and bad_sub: "fst (m_subscribe_topic_callback (transport True False True ?old)
      PROV_RESPONSE_TOPIC (world start))"
    and bad_send: "\<not> fst (m_send_json_callback (transport True False True ?old)
      PROV_REQUEST_TOPIC ?doc 0 [''subscribe''])"
    by (simp_all add: transport_def)
  from good_result valid good_sub
  have "good = (True, transport True True True ?cb,
      \<lparr>calls = [Subscribe_Topic PROV_RESPONSE_TOPIC True,
                 Send_Json PROV_REQUEST_TOPIC ?doc 0 True],
       world = [''subscribe'', ''send'']\<rparr>)"
    by (cases good) (simp add: transport_def start_def)
  moreover from bad_result valid bad_sub
  have "bad = (False, transport True False True ?cb,
      \<lparr>calls = [Subscribe_Topic PROV_RESPONSE_TOPIC True,
                 Send_Json PROV_REQUEST_TOPIC ?doc 0 False],
       world = [''subscribe'', ''send'']\<rparr>)"
    by (cases bad) (simp add: transport_def start_def)
  moreover have "transport True False True ?cb =
      (transport True False True ?old)\<lparr>m_provision_callback := ?cb\<rparr>"
    by (simp add: transport_def)
  moreover have "filter is_Unsubscribe_Topic
     (new_calls start
       \<lparr>calls = [Subscribe_Topic PROV_RESPONSE_TOPIC True,
                  Send_Json PROV_REQUEST_TOPIC ?doc 0 False],
        world = [''subscribe'', ''send'']\<rparr>) = []"
    by (simp add: new_calls_def start_def is_Unsubscribe_Topic_def)
  ultimately show ?thesis
    using good_sub good_send bad_sub bad_send
    unfolding good_def bad_def by simp
qed

subsection \<open>Responses and unsubscription\<close>

lemma Call_Callback_calls:
  "calls (Call_Callback callback data e) =
     calls e @ (case m_callback callback of None \<Rightarrow> [] | Some handler \<Rightarrow> [Response_Handler data])"
  by (simp add: Call_Callback_def split: option.splits)

lemma Call_Callback_world:
  "world (Call_Callback callback data e) =
     (case m_callback callback of None \<Rightarrow> world e | Some handler \<Rightarrow> handler data (world e))"
  by (simp add: Call_Callback_def split: option.splits)

lemma Call_unsubscribe_topic_eq:
  "Call_unsubscribe_topic this topic e =
     (fst (m_unsubscribe_topic_callback this topic (world e)),
      \<lparr>calls = calls e @
         [Unsubscribe_Topic topic (fst (m_unsubscribe_topic_callback this topic (world e)))],
       world = snd (m_unsubscribe_topic_callback this topic (world e))\<rparr>)"
  by (simp add: Call_unsubscribe_topic_def split: prod.splits)

lemma Process_Json_Response_explicit:
  "Process_Json_Response this topic data e =
     (let w = (case m_callback (m_provision_callback this) of
                 None \<Rightarrow> world e
               | Some handler \<Rightarrow> handler data (world e));
          r = m_unsubscribe_topic_callback this PROV_RESPONSE_TOPIC w
      in (this\<lparr>m_provision_callback := Provision_Callback_default\<rparr>,
          \<lparr>calls = calls e @
             (case m_callback (m_provision_callback this) of
                None \<Rightarrow> []
              | Some handler \<Rightarrow> [Response_Handler data]) @
             [Unsubscribe_Topic PROV_RESPONSE_TOPIC (fst r)],
           world = snd r\<rparr>))"
  by (simp add: Process_Json_Response_eq Call_unsubscribe_topic_eq Call_Callback_calls
      Call_Callback_world Let_def)

text \<open>
  C5.  \<open>Process_Json_Response\<close> first runs the handler stored in the correlation slot on
  the parsed document (a slot without a handler runs nothing), then unsubscribes, whatever the
  handler did: afterwards the slot is the default descriptor, and the calls made are the
  handler's, if any, followed by one call of the unsubscribe-topic callback on the response
  topic, which is the only unsubscription of the call.
\<close>

theorem Process_Json_Response_dispatch:
  "(let w = (case m_callback (m_provision_callback this) of
               None \<Rightarrow> world e
             | Some handler \<Rightarrow> handler data (world e));
        r = m_unsubscribe_topic_callback this PROV_RESPONSE_TOPIC w;
        this' = fst (Process_Json_Response this topic data e);
        e' = snd (Process_Json_Response this topic data e)
    in this' = this\<lparr>m_provision_callback := Provision_Callback_default\<rparr> \<and>
       m_provision_callback this' = Provision_Callback_default \<and>
       calls e' =
         calls e @
         (case m_callback (m_provision_callback this) of
            None \<Rightarrow> []
          | Some handler \<Rightarrow> [Response_Handler data]) @
         [Unsubscribe_Topic PROV_RESPONSE_TOPIC (fst r)] \<and>
       world e' = snd r \<and>
       filter is_Unsubscribe_Topic (new_calls e e') =
         [Unsubscribe_Topic PROV_RESPONSE_TOPIC (fst r)])"
  by (simp add: Process_Json_Response_explicit Let_def new_calls_def is_Unsubscribe_Topic_def
      split: option.splits)

theorem Process_Json_Response_dispatch_witness:
  "Process_Json_Response
       (transport True True True (descriptor ''d'' (Some ''abc'') (Some ''xyz'') None))
       ''/provision/response'' \<lparr>capacity = 4, root = JsonObject [(''status'', JsonString ''SUCCESS'')]\<rparr>
       start =
     (transport True True True Provision_Callback_default,
      \<lparr>calls =
         [Response_Handler \<lparr>capacity = 4, root = JsonObject [(''status'', JsonString ''SUCCESS'')]\<rparr>,
          Unsubscribe_Topic ''/provision/response'' True],
       world = [''d'', ''unsubscribe'']\<rparr>)"
proof -
  let ?obj = "transport True True True (descriptor ''d'' (Some ''abc'') (Some ''xyz'') None)"
  let ?data = "\<lparr>capacity = 4, root = JsonObject [(''status'', JsonString ''SUCCESS'')]\<rparr>"
  have "fst (Process_Json_Response ?obj ''/provision/response'' ?data start) =
      transport True True True Provision_Callback_default \<and>
    calls (snd (Process_Json_Response ?obj ''/provision/response'' ?data start)) =
      [Response_Handler ?data, Unsubscribe_Topic ''/provision/response'' True] \<and>
    world (snd (Process_Json_Response ?obj ''/provision/response'' ?data start)) =
      [''d'', ''unsubscribe'']"
    using Process_Json_Response_dispatch
      [where this = ?obj and e = start and data = ?data and topic = "''/provision/response''"]
    by (simp add: Let_def transport_def descriptor_def start_def PROV_RESPONSE_TOPIC_def)
  then show ?thesis
    by (cases "Process_Json_Response ?obj ''/provision/response'' ?data start")
      (simp add: env.equality)
qed

text \<open>
  C7.  \<open>Resubscribe_Topic\<close> does what \<open>Unsubscribe\<close> does, from every state: the slot is
  reset to the default descriptor, the unsubscribe-topic callback is called on the response
  topic and its result is returned.  This is the only call: nothing is subscribed again.
\<close>

theorem Resubscribe_Topic_is_Unsubscribe:
  "Resubscribe_Topic this e = Unsubscribe this e \<and>
   Unsubscribe this e =
     (fst (m_unsubscribe_topic_callback this PROV_RESPONSE_TOPIC (world e)),
      this\<lparr>m_provision_callback := Provision_Callback_default\<rparr>,
      \<lparr>calls = calls e @
         [Unsubscribe_Topic PROV_RESPONSE_TOPIC
            (fst (m_unsubscribe_topic_callback this PROV_RESPONSE_TOPIC (world e)))],
       world = snd (m_unsubscribe_topic_callback this PROV_RESPONSE_TOPIC (world e))\<rparr>)"
  by (simp add: Resubscribe_Topic_def Unsubscribe_def Provision_Unsubscribe_eq)

theorem Resubscribe_Topic_is_Unsubscribe_witness:
  "Resubscribe_Topic
       (transport True True False (descriptor ''d'' (Some ''abc'') (Some ''xyz'') None)) start =
     (False, transport True True False Provision_Callback_default,
      \<lparr>calls = [Unsubscribe_Topic ''/provision/response'' False],
       world = [''unsubscribe'']\<rparr>)"
  using Resubscribe_Topic_is_Unsubscribe
    [where this = "transport True True False (descriptor ''d'' (Some ''abc'') (Some ''xyz'') None)"
       and e = start]
  by (simp add: transport_def start_def PROV_RESPONSE_TOPIC_def)

text \<open>
  C8.  \<open>Process_Response\<close>, the delivery of a raw payload, does nothing: the object, with
  its slot and its transport callbacks, and the environment are as before, so that no
  callback and no handler was called.
\<close>

theorem Process_Response_noop:
  "Process_Response this topic payload len e = (this, e)"
  by (simp add: Process_Response_def)

theorem Process_Response_noop_witness:
  "Process_Response (transport True True True (descriptor ''d'' (Some ''abc'') (Some ''xyz'') None))
       ''/provision/response'' [0x7B, 0x7D] 2 start =
     (transport True True True (descriptor ''d'' (Some ''abc'') (Some ''xyz'') None), start)"
  by (rule Process_Response_noop)

text \<open>
  C9.  After \<open>Unsubscribe\<close>, \<open>Resubscribe_Topic\<close> and \<open>Process_Json_Response\<close> the slot
  is the default descriptor, whatever the unsubscribe-topic callback reports.  The first two
  return the callback's report; \<open>Process_Json_Response\<close> drops it: the report changes
  nothing but the record of the call itself, which is the last call made.
  (The slot is assigned before the callback is called; a callback that does not call back
  into the object cannot tell.)
\<close>

theorem unsubscription_clears_slot:
  "m_provision_callback (fst (snd (Unsubscribe this e))) = Provision_Callback_default \<and>
   fst (Unsubscribe this e) =
     fst (m_unsubscribe_topic_callback this PROV_RESPONSE_TOPIC (world e)) \<and>
   m_provision_callback (fst (snd (Resubscribe_Topic this e))) = Provision_Callback_default \<and>
   fst (Resubscribe_Topic this e) =
     fst (m_unsubscribe_topic_callback this PROV_RESPONSE_TOPIC (world e)) \<and>
   fst (Process_Json_Response this topic data e) =
     this\<lparr>m_provision_callback := Provision_Callback_default\<rparr> \<and>
   m_provision_callback (fst (Process_Json_Response this topic data e)) =
     Provision_Callback_default \<and>
   snd (Process_Json_Response this topic data e) =
     \<lparr>calls = calls (Call_Callback (m_provision_callback this) data e) @
        [Unsubscribe_Topic PROV_RESPONSE_TOPIC
           (fst (m_unsubscribe_topic_callback this PROV_RESPONSE_TOPIC
              (world (Call_Callback (m_provision_callback this) data e))))],
      world = snd (m_unsubscribe_topic_callback this PROV_RESPONSE_TOPIC
              (world (Call_Callback (m_provision_callback this) data e)))\<rparr>"
  by (simp add: Resubscribe_Topic_def Unsubscribe_def Provision_Unsubscribe_eq
      Process_Json_Response_eq Call_unsubscribe_topic_eq)

theorem unsubscription_clears_slot_witness:
  "\<not> fst (m_unsubscribe_topic_callback
        (transport True True False (descriptor ''d'' (Some ''abc'') (Some ''xyz'') None))
        PROV_RESPONSE_TOPIC [''d'']) \<and>
   m_provision_callback (fst (snd (Unsubscribe
       (transport True True False (descriptor ''d'' (Some ''abc'') (Some ''xyz'') None)) start))) =
     Provision_Callback_default \<and>
   \<not> fst (Unsubscribe
       (transport True True False (descriptor ''d'' (Some ''abc'') (Some ''xyz'') None)) start) \<and>
   Process_Json_Response
       (transport True True False (descriptor ''d'' (Some ''abc'') (Some ''xyz'') None))
       ''/provision/response'' \<lparr>capacity = 0, root = JsonNull\<rparr> start =
     (transport True True False Provision_Callback_default,
      \<lparr>calls = [Response_Handler \<lparr>capacity = 0, root = JsonNull\<rparr>,
                 Unsubscribe_Topic ''/provision/response'' False],
       world = [''d'', ''unsubscribe'']\<rparr>)"
proof -
  let ?obj = "transport True True False (descriptor ''d'' (Some ''abc'') (Some ''xyz'') None)"
  let ?data = "\<lparr>capacity = 0, root = JsonNull\<rparr>"
  note clears = unsubscription_clears_slot
      [where this = ?obj and e = start and data = ?data and topic = "''/provision/response''"]
  have "Process_Json_Response ?obj ''/provision/response'' ?data start =
     (fst (Process_Json_Response ?obj ''/provision/response'' ?data start),
      snd (Process_Json_Response ?obj ''/provision/response'' ?data start))"
    by simp
  also have "\<dots> = (transport True True False Provision_Callback_default,
      \<lparr>calls = [Response_Handler ?data, Unsubscribe_Topic ''/provision/response'' False],
       world = [''d'', ''unsubscribe'']\<rparr>)"
    using clears
    by (simp add: transport_def descriptor_def start_def Call_Callback_def
        PROV_RESPONSE_TOPIC_def)
  finally have response: "Process_Json_Response ?obj ''/provision/response'' ?data start =
     (transport True True False Provision_Callback_default,
      \<lparr>calls = [Response_Handler ?data, Unsubscribe_Topic ''/provision/response'' False],
       world = [''d'', ''unsubscribe'']\<rparr>)" .
  have "\<not> fst (m_unsubscribe_topic_callback ?obj PROV_RESPONSE_TOPIC [''d''])"
    by (simp add: transport_def)
  moreover from clears have "m_provision_callback (fst (snd (Unsubscribe ?obj start))) =
     Provision_Callback_default"
    by simp
  moreover from clears have "\<not> fst (Unsubscribe ?obj start)"
    by (simp add: transport_def)
  ultimately show ?thesis
    using response by simp
qed


subsection \<open>Capacity of the request document\<close>

lemma members_request_buffer: "members (request_buffer callback) = expected_members callback"
  by (simp add: request_buffer_eq members_def)

lemma length_optional_fields: "length (optional_fields callback) = 7"
  by (simp add: optional_fields_def)

text \<open>
  C10.  For every descriptor the request document holds at most 9 members, under pairwise
  distinct keys: the two required ones and one for each optional field that is not empty.
  This is within the capacity \<open>JSON_OBJECT_SIZE(9)\<close> that the document is allocated with, and
  no member was dropped: the document holds as many members as were set, each under its key
  with its value.
\<close>

theorem request_buffer_within_capacity:
  "length (members (request_buffer callback)) =
     2 + length (filter (\<lambda>f. \<not> stringIsNullorEmpty (snd f)) (optional_fields callback)) \<and>
   length (members (request_buffer callback)) \<le> 9 \<and>
   distinct (map fst (members (request_buffer callback))) \<and>
   capacity (request_buffer callback) = JSON_OBJECT_SIZE 9 \<and>
   length (members (request_buffer callback)) \<le> capacity (request_buffer callback) \<and>
   root (request_buffer callback) = JsonObject (members (request_buffer callback)) \<and>
   map_of (members (request_buffer callback)) = spec_payload callback"
proof -
  have "length (filter (\<lambda>f. \<not> stringIsNullorEmpty (snd f)) (optional_fields callback)) \<le> 7"
    using length_filter_le [of "\<lambda>f. \<not> stringIsNullorEmpty (snd f)" "optional_fields callback"]
    by (simp add: length_optional_fields)
  moreover have "map_of (expected_members callback) = spec_payload callback"
    by (rule ext) (rule map_of_expected_members)
  moreover have "capacity (request_buffer callback) = JSON_OBJECT_SIZE 9"
    and "root (request_buffer callback) = JsonObject (expected_members callback)"
    by (simp_all add: request_buffer_eq)
  ultimately show ?thesis
    unfolding members_request_buffer
    by (simp add: length_expected_members distinct_expected_members JSON_OBJECT_SIZE_def)
qed

theorem request_buffer_within_capacity_witness:
  "length (members (request_buffer
     \<lparr>m_callback = Some (\<lambda>data w. w @ [''full'']), Get_Device_Key = Some ''abc'',
      Get_Device_Secret = Some ''xyz'', Get_Device_Name = Some ''dev1'',
      Get_Device_Access_Token = Some ''t'', Get_Credentials_Username = Some ''u'',
      Get_Credentials_Password = Some ''p'', Get_Credentials_Client_ID = Some ''c'',
      Get_Certificate_Hash = Some ''h'', Get_Credentials_Type = Some ''MQTT_BASIC''\<rparr>)) = 9 \<and>
   capacity (request_buffer
     \<lparr>m_callback = Some (\<lambda>data w. w @ [''full'']), Get_Device_Key = Some ''abc'',
      Get_Device_Secret = Some ''xyz'', Get_Device_Name = Some ''dev1'',
      Get_Device_Access_Token = Some ''t'', Get_Credentials_Username = Some ''u'',
      Get_Credentials_Password = Some ''p'', Get_Credentials_Client_ID = Some ''c'',
      Get_Certificate_Hash = Some ''h'', Get_Credentials_Type = Some ''MQTT_BASIC''\<rparr>) = 9"
  using request_buffer_within_capacity
    [where callback = "\<lparr>m_callback = Some (\<lambda>data w. w @ [''full'']),
      Get_Device_Key = Some ''abc'',
      Get_Device_Secret = Some ''xyz'', Get_Device_Name = Some ''dev1'',
      Get_Device_Access_Token = Some ''t'', Get_Credentials_Username = Some ''u'',
      Get_Credentials_Password = Some ''p'', Get_Credentials_Client_ID = Some ''c'',
      Get_Certificate_Hash = Some ''h'', Get_Credentials_Type = Some ''MQTT_BASIC''\<rparr>"]
  by (simp add: optional_fields_def stringIsNullorEmpty_def JSON_OBJECT_SIZE_def)

subsection \<open>A second request before the response\<close>

lemma Provision_Request_True:
  assumes "Provision_Request Measure_Json this callback e = (True, this', e')"
  shows "\<not> stringIsNullorEmpty (Get_Device_Key callback)"
    and "\<not> stringIsNullorEmpty (Get_Device_Secret callback)"
    and "fst (m_subscribe_topic_callback this PROV_RESPONSE_TOPIC (world e))"
proof -
  show key: "\<not> stringIsNullorEmpty (Get_Device_Key callback)"
    using assms Provision_Request_invalid [of callback Measure_Json this e] by auto
  show secret: "\<not> stringIsNullorEmpty (Get_Device_Secret callback)"
    using assms Provision_Request_invalid [of callback Measure_Json this e] by auto
  show "fst (m_subscribe_topic_callback this PROV_RESPONSE_TOPIC (world e))"
    using assms Provision_Request_refused [OF key secret, of this e Measure_Json] by auto
qed

text \<open>
  C6.  Let two requests both be accepted (both calls return true), the second one made on the
  state that the first one left.  Then the slot holds the second descriptor and the object
  is the one before the first request with the second descriptor in its slot; the two
  requests ran no handler; the state they leave is the same whatever the handler of the
  first descriptor is, so that nothing that happens afterwards depends on it; and the next
  \<open>Process_Json_Response\<close> runs the handler of the second descriptor, then unsubscribes,
  and leaves the default descriptor in the slot.
\<close>

theorem second_request_wins:
  assumes first: "Provision_Request Measure_Json this callback1 e = (True, this1, e1)"
    and second: "Provision_Request Measure_Json this1 callback2 e1 = (True, this2, e2)"
  shows "m_provision_callback this2 = callback2 \<and>
    this2 = this\<lparr>m_provision_callback := callback2\<rparr> \<and>
    filter is_Response_Handler (new_calls e e2) = [] \<and>
    (\<forall>handler. \<exists>this1'.
       Provision_Request Measure_Json this (callback1\<lparr>m_callback := handler\<rparr>) e =
         (True, this1', e1) \<and>
       Provision_Request Measure_Json this1' callback2 e1 = (True, this2, e2)) \<and>
    Process_Json_Response this2 topic data e2 =
      (this\<lparr>m_provision_callback := Provision_Callback_default\<rparr>,
       snd (Call_unsubscribe_topic this PROV_RESPONSE_TOPIC (Call_Callback callback2 data e2)))"
proof -
  note v1 = Provision_Request_True [OF first]
  define doc1 where "doc1 = request_buffer callback1"
  define r1 where "r1 = m_send_json_callback this PROV_REQUEST_TOPIC doc1 (Measure_Json doc1)
      (snd (m_subscribe_topic_callback this PROV_RESPONSE_TOPIC (world e)))"
  note run1 = Provision_Request_subscribed [where Measure_Json = Measure_Json, OF v1 doc1_def r1_def]
  from run1 first have sent1: "fst r1" and this1: "this1 = this\<lparr>m_provision_callback := callback1\<rparr>"
    and e1: "e1 = \<lparr>calls = calls e @ [Subscribe_Topic PROV_RESPONSE_TOPIC True,
         Send_Json PROV_REQUEST_TOPIC doc1 (Measure_Json doc1) (fst r1)], world = snd r1\<rparr>"
    by simp_all
  note v2 = Provision_Request_True [OF second]
  define doc2 where "doc2 = request_buffer callback2"
  define r2 where "r2 = m_send_json_callback this1 PROV_REQUEST_TOPIC doc2 (Measure_Json doc2)
      (snd (m_subscribe_topic_callback this1 PROV_RESPONSE_TOPIC (world e1)))"
  note run2 = Provision_Request_subscribed [where Measure_Json = Measure_Json, OF v2 doc2_def r2_def]
  from run2 second have sent2: "fst r2"
    and this2: "this2 = this1\<lparr>m_provision_callback := callback2\<rparr>"
    and e2: "e2 = \<lparr>calls = calls e1 @ [Subscribe_Topic PROV_RESPONSE_TOPIC True,
         Send_Json PROV_REQUEST_TOPIC doc2 (Measure_Json doc2) (fst r2)], world = snd r2\<rparr>"
    by simp_all
  have obj: "this2 = this\<lparr>m_provision_callback := callback2\<rparr>"
    by (simp add: this2 this1)
  have quiet: "filter is_Response_Handler (new_calls e e2) = []"
    by (simp add: e2 e1 new_calls_def is_Response_Handler_def)
  have any: "\<exists>this1'.
       Provision_Request Measure_Json this (callback1\<lparr>m_callback := handler\<rparr>) e =
         (True, this1', e1) \<and>
       Provision_Request Measure_Json this1' callback2 e1 = (True, this2, e2)" for handler
  proof -
    let ?cb = "callback1\<lparr>m_callback := handler\<rparr>"
    let ?this1 = "this\<lparr>m_provision_callback := ?cb\<rparr>"
    have "Provision_Request Measure_Json this ?cb e = (True, ?this1, e1)"
      using v1 sent1
      by (simp add: Provision_Request_subscribed [where Measure_Json = Measure_Json
            and doc = doc1 and r = r1] doc1_def r1_def e1 request_buffer_handler)
    moreover have "Provision_Request Measure_Json ?this1 callback2 e1 = (True, this2, e2)"
      using v2 sent2
      by (simp add: Provision_Request_subscribed [where Measure_Json = Measure_Json
            and doc = doc2 and r = r2] doc2_def r2_def e2 this1 obj)
    ultimately show ?thesis by blast
  qed
  have "Process_Json_Response this2 topic data e2 =
      (this\<lparr>m_provision_callback := Provision_Callback_default\<rparr>,
       snd (Call_unsubscribe_topic this PROV_RESPONSE_TOPIC (Call_Callback callback2 data e2)))"
    by (simp add: Process_Json_Response_eq obj Call_unsubscribe_topic_eq)
  with obj quiet any show ?thesis
    by simp
qed


theorem second_request_wins_witness:
  "Provision_Request (\<lambda>doc. 0) (transport True True True (descriptor ''old'' None None None))
       (descriptor ''first'' (Some ''abc'') (Some ''xyz'') None) start =
     (True, transport True True True (descriptor ''first'' (Some ''abc'') (Some ''xyz'') None),
      \<lparr>calls =
         [Subscribe_Topic PROV_RESPONSE_TOPIC True,
          Send_Json PROV_REQUEST_TOPIC
            (request_buffer (descriptor ''first'' (Some ''abc'') (Some ''xyz'') None)) 0 True],
       world = [''subscribe'', ''send'']\<rparr>) \<and>
   Provision_Request (\<lambda>doc. 0)
       (transport True True True (descriptor ''first'' (Some ''abc'') (Some ''xyz'') None))
       (descriptor ''second'' (Some ''abc'') (Some ''xyz'') (Some ''dev1''))
       \<lparr>calls =
         [Subscribe_Topic PROV_RESPONSE_TOPIC True,
          Send_Json PROV_REQUEST_TOPIC
            (request_buffer (descriptor ''first'' (Some ''abc'') (Some ''xyz'') None)) 0 True],
        world = [''subscribe'', ''send'']\<rparr> =
     (True,
      transport True True True (descriptor ''second'' (Some ''abc'') (Some ''xyz'') (Some ''dev1'')),
      \<lparr>calls =
         [Subscribe_Topic PROV_RESPONSE_TOPIC True,
          Send_Json PROV_REQUEST_TOPIC
            (request_buffer (descriptor ''first'' (Some ''abc'') (Some ''xyz'') None)) 0 True,
          Subscribe_Topic PROV_RESPONSE_TOPIC True,
          Send_Json PROV_REQUEST_TOPIC
            (request_buffer (descriptor ''second'' (Some ''abc'') (Some ''xyz'') (Some ''dev1'')))
            0 True],
       world = [''subscribe'', ''send'', ''subscribe'', ''send'']\<rparr>) \<and>
   Process_Json_Response
       (transport True True True (descriptor ''second'' (Some ''abc'') (Some ''xyz'') (Some ''dev1'')))
       ''/provision/response'' \<lparr>capacity = 0, root = JsonNull\<rparr>
       \<lparr>calls =
         [Subscribe_Topic PROV_RESPONSE_TOPIC True,
          Send_Json PROV_REQUEST_TOPIC
            (request_buffer (descriptor ''first'' (Some ''abc'') (Some ''xyz'') None)) 0 True,
          Subscribe_Topic PROV_RESPONSE_TOPIC True,
          Send_Json PROV_REQUEST_TOPIC
            (request_buffer (descriptor ''second'' (Some ''abc'') (Some ''xyz'') (Some ''dev1'')))
            0 True],
        world = [''subscribe'', ''send'', ''subscribe'', ''send'']\<rparr> =
     (transport True True True Provision_Callback_default,
      \<lparr>calls =
         [Subscribe_Topic PROV_RESPONSE_TOPIC True,
          Send_Json PROV_REQUEST_TOPIC
            (request_buffer (descriptor ''first'' (Some ''abc'') (Some ''xyz'') None)) 0 True,
          Subscribe_Topic PROV_RESPONSE_TOPIC True,
          Send_Json PROV_REQUEST_TOPIC
            (request_buffer (descriptor ''second'' (Some ''abc'') (Some ''xyz'') (Some ''dev1'')))
            0 True,
          Response_Handler \<lparr>capacity = 0, root = JsonNull\<rparr>,
          Unsubscribe_Topic PROV_RESPONSE_TOPIC True],
       world = [''subscribe'', ''send'', ''subscribe'', ''send'', ''second'', ''unsubscribe'']\<rparr>)"
proof -
  let ?old = "descriptor ''old'' None None None"
  let ?cb1 = "descriptor ''first'' (Some ''abc'') (Some ''xyz'') None"
  let ?cb2 = "descriptor ''second'' (Some ''abc'') (Some ''xyz'') (Some ''dev1'')"
  let ?e1 = "\<lparr>calls =
         [Subscribe_Topic PROV_RESPONSE_TOPIC True,
          Send_Json PROV_REQUEST_TOPIC (request_buffer ?cb1) 0 True],
        world = [''subscribe'', ''send'']\<rparr>"
  let ?e2 = "\<lparr>calls =
         [Subscribe_Topic PROV_RESPONSE_TOPIC True,
          Send_Json PROV_REQUEST_TOPIC (request_buffer ?cb1) 0 True,
          Subscribe_Topic PROV_RESPONSE_TOPIC True,
          Send_Json PROV_REQUEST_TOPIC (request_buffer ?cb2) 0 True],
        world = [''subscribe'', ''send'', ''subscribe'', ''send'']\<rparr>"
  have run1: "Provision_Request (\<lambda>doc. 0) (transport True True True ?old) ?cb1 start =
      (True, transport True True True ?cb1, ?e1)"
    by (simp add: Provision_Request_subscribed [OF _ _ _ refl refl] descriptor_def
        transport_def start_def stringIsNullorEmpty_def)
  have run2: "Provision_Request (\<lambda>doc. 0) (transport True True True ?cb1) ?cb2 ?e1 =
      (True, transport True True True ?cb2, ?e2)"
    by (simp add: Provision_Request_subscribed [OF _ _ _ refl refl] descriptor_def
        transport_def stringIsNullorEmpty_def)
  from second_request_wins [OF run1 run2, where topic = "''/provision/response''"
      and data = "\<lparr>capacity = 0, root = JsonNull\<rparr>"]
  have "Process_Json_Response (transport True True True ?cb2) ''/provision/response''
       \<lparr>capacity = 0, root = JsonNull\<rparr> ?e2 =
     ((transport True True True ?old)\<lparr>m_provision_callback := Provision_Callback_default\<rparr>,
       snd (Call_unsubscribe_topic (transport True True True ?old) PROV_RESPONSE_TOPIC
         (Call_Callback ?cb2 \<lparr>capacity = 0, root = JsonNull\<rparr> ?e2)))"
    by blast
  also have "\<dots> = (transport True True True Provision_Callback_default,
      \<lparr>calls =
         [Subscribe_Topic PROV_RESPONSE_TOPIC True,
          Send_Json PROV_REQUEST_TOPIC (request_buffer ?cb1) 0 True,
          Subscribe_Topic PROV_RESPONSE_TOPIC True,
          Send_Json PROV_REQUEST_TOPIC (request_buffer ?cb2) 0 True,
          Response_Handler \<lparr>capacity = 0, root = JsonNull\<rparr>,
          Unsubscribe_Topic PROV_RESPONSE_TOPIC True],
       world = [''subscribe'', ''send'', ''subscribe'', ''send'', ''second'', ''unsubscribe'']\<rparr>)"
    by (simp add: Call_unsubscribe_topic_eq Call_Callback_def transport_def descriptor_def)
  finally show ?thesis
    using run1 run2 by simp
qed

end
